theory Spec2Isabelle
  imports Complex_Main "HOL-Library.Char_ord" "HOL-Library.List_Lexorder"
begin

section \<open>The dashboard script \<^verbatim>\<open>dashboardbikesharing.py\<close>\<close>

text \<open>
  The script is one render pass, run from top to bottom on every interaction: it loads a
  table, shows a summary of it and draws the charts chosen through widgets. The table and
  the numbers come from pandas and numpy, so their operations are written out here as the
  script uses them. A float is a real number, or one of the special values a division by
  zero gives; the rounding error of binary floating point is not part of the model.
\<close>

subsection \<open>Tables\<close>

datatype dtype = Float64 | Int64 | Object | Category | Bool | Datetime64 | Float32 | Int32

datatype cell = Null | Num real | Str string | Bl bool

record column =
  col_name :: string
  col_dtype :: dtype
  col_values :: "cell list"

text \<open>\<open>df_len\<close> is \<^verbatim>\<open>len(df)\<close>, the length of the row index \<open>0, 1, ...\<close>.\<close>

record dataframe =
  df_columns :: "column list"
  df_len :: nat

datatype npfloat = NaN | PosInf | Fin real

subsection \<open>Python and library calls that can fail\<close>

datatype error =
    KeyError string
  | IndexError
  | StreamlitAPIException
  | NoSelection
  | ParserError

text \<open>\<^verbatim>\<open>xs[i]\<close> for \<open>i \<ge> 0\<close>: out of range raises.\<close>

definition py_index :: "'a list \<Rightarrow> nat \<Rightarrow> error + 'a" where
  "py_index xs i = (if i < length xs then Inr (xs ! i) else Inl IndexError)"

text \<open>\<^verbatim>\<open>df[k]\<close>: the column labelled \<open>k\<close>; a label that is not in the table raises.\<close>

fun getitem :: "column list \<Rightarrow> string \<Rightarrow> error + column" where
  "getitem [] k = Inl (KeyError k)"
| "getitem (c # cs) k = (if col_name c = k then Inr c else getitem cs k)"

text \<open>\<^verbatim>\<open>df[ks]\<close> for a list of labels: the columns in the order of the labels.\<close>

fun getitems :: "column list \<Rightarrow> string list \<Rightarrow> error + column list" where
  "getitems cs [] = Inr []"
| "getitems cs (k # ks) =
     (case getitem cs k of
        Inl e \<Rightarrow> Inl e
      | Inr c \<Rightarrow> (case getitems cs ks of Inl e \<Rightarrow> Inl e | Inr rest \<Rightarrow> Inr (c # rest)))"

subsection \<open>Loading the data (lines 21 to 38)\<close>

text \<open>
  The table shown when nothing is uploaded: 100 rows and the five columns \<open>A\<close> to \<open>E\<close>
  of random floats. \<open>randn i j\<close> is the number drawn for row \<open>i\<close> and column \<open>j\<close>.
\<close>

definition placeholder :: "(nat \<Rightarrow> nat \<Rightarrow> real) \<Rightarrow> dataframe" where
  "placeholder randn =
     \<lparr>df_columns =
        map (\<lambda>(j, label). \<lparr>col_name = label, col_dtype = Float64,
                            col_values = map (\<lambda>i. Num (randn i j)) [0..<100]\<rparr>)
          (enumerate 0 [''A'', ''B'', ''C'', ''D'', ''E'']),
      df_len = 100\<rparr>"

text \<open>
  The body of \<^verbatim>\<open>load_data\<close>. It reads the global \<^verbatim>\<open>uploaded_file\<close>; \<open>read_csv\<close>
  stands for \<^verbatim>\<open>pd.read_csv\<close>, which gives a table or fails.
\<close>

definition load_data_body ::
  "('f \<Rightarrow> error + dataframe) \<Rightarrow> 'f option \<Rightarrow> (nat \<Rightarrow> nat \<Rightarrow> real) \<Rightarrow> error + dataframe" where
  "load_data_body read_csv uploaded_file randn =
     (case uploaded_file of
        Some file \<Rightarrow> read_csv file
      | None \<Rightarrow> Inr (placeholder randn))"

text \<open>
  \<^verbatim>\<open>@st.cache_data\<close> stores the value a function returns under the function and the
  values of its arguments, and returns the stored value without running the body when that
  key is present. \<^verbatim>\<open>load_data\<close> takes no argument, so its cache has one entry; a body
  that fails stores nothing.
\<close>

type_synonym cache = "dataframe option"

definition cache_data :: "(error + dataframe) \<Rightarrow> cache \<Rightarrow> (error + dataframe) \<times> cache" where
  "cache_data body cache =
     (case cache of
        Some stored \<Rightarrow> (Inr stored, cache)
      | None \<Rightarrow>
          (case body of
             Inl e \<Rightarrow> (Inl e, None)
           | Inr data \<Rightarrow> (Inr data, Some data)))"

definition load_data ::
  "('f \<Rightarrow> error + dataframe) \<Rightarrow> 'f option \<Rightarrow> (nat \<Rightarrow> nat \<Rightarrow> real) \<Rightarrow> cache
     \<Rightarrow> (error + dataframe) \<times> cache" where
  "load_data read_csv uploaded_file randn cache =
     cache_data (load_data_body read_csv uploaded_file randn) cache"

subsection \<open>Missing values (lines 60 to 67)\<close>





text \<open>Rounding to the nearest integer, a tie going to the even neighbour.\<close>

definition rint :: "real \<Rightarrow> int" where
  "rint x =
     (let f = \<lfloor>x\<rfloor>; d = x - of_int f
      in if d < 1 / 2 then f else if 1 / 2 < d then f + 1 else if even f then f else f + 1)"




subsection \<open>Widgets\<close>

text \<open>
  What the user has picked so far, by widget key. A select box holds the position of the
  picked option, a multi-select the positions in the order they were picked; \<open>None\<close> is a
  widget the user has not touched, which returns its default.
\<close>

record widgets =
  hist_col :: "nat option"
  plot_type :: "nat option"
  x_col :: "nat option"
  y_col :: "nat option"
  line_cols :: "nat list option"
  bar_x :: "nat option"
  bar_y :: "nat option"
  bar_y_only :: "nat option"
  box_cols :: "nat list option"

text \<open>
  \<^verbatim>\<open>st.selectbox(label, options, index)\<close> returns one of the options: the picked one, or
  the one at \<open>index\<close> when nothing valid is picked. A default \<open>index\<close> outside the
  options is refused, and without options there is nothing to return.
\<close>

definition selectbox :: "string list \<Rightarrow> nat \<Rightarrow> nat option \<Rightarrow> error + string" where
  "selectbox options index choice =
     (if options = [] then Inl NoSelection
      else if length options \<le> index then Inl StreamlitAPIException
      else Inr (options !
        (case choice of
           None \<Rightarrow> index
         | Some i \<Rightarrow> if i < length options then i else index)))"

text \<open>
  \<^verbatim>\<open>st.multiselect(label, options, default)\<close> returns the picked options, each once; a
  default that is not among the options is refused.
\<close>

definition multiselect ::
  "string list \<Rightarrow> string list \<Rightarrow> nat list option \<Rightarrow> error + string list" where
  "multiselect options default_options choice =
     (if \<not> set default_options \<subseteq> set options then Inl StreamlitAPIException
      else Inr
        (case choice of
           None \<Rightarrow> default_options
         | Some picks \<Rightarrow>
             map (\<lambda>i. options ! i) (remdups (filter (\<lambda>i. i < length options) picks))))"

text \<open>The widgets of a page nobody has touched yet.\<close>

definition untouched :: widgets where
  "untouched =
     \<lparr>hist_col = None, plot_type = None, x_col = None, y_col = None, line_cols = None,
      bar_x = None, bar_y = None, bar_y_only = None, box_cols = None\<rparr>"

subsection \<open>Statistics of one column\<close>

text \<open>The numbers of a column; pandas skips the missing values.\<close>

fun dropna :: "cell list \<Rightarrow> real list" where
  "dropna [] = []"
| "dropna (Num r # vs) = r # dropna vs"
| "dropna (v # vs) = dropna vs"

definition series_mean :: "cell list \<Rightarrow> npfloat" where
  "series_mean vs =
     (let xs = dropna vs
      in if xs = [] then NaN else Fin (sum_list xs / real (length xs)))"

definition series_median :: "cell list \<Rightarrow> npfloat" where
  "series_median vs =
     (let xs = sort (dropna vs); n = length xs
      in if n = 0 then NaN
         else if odd n then Fin (xs ! (n div 2))
         else Fin ((xs ! (n div 2 - 1) + xs ! (n div 2)) / 2))"

text \<open>The sample standard deviation (one degree of freedom less): nan below two values.\<close>

definition series_std :: "cell list \<Rightarrow> npfloat" where
  "series_std vs =
     (let xs = dropna vs; n = length xs; m = sum_list xs / real n
      in if n < 2 then NaN
         else Fin (sqrt (sum_list (map (\<lambda>x. (x - m)\<^sup>2) xs) / real (n - 1))))"

subsection \<open>Text of numbers\<close>

fun digits :: "nat \<Rightarrow> string" where
  "digits n =
     (if n < 10 then [''0123456789'' ! n]
      else digits (n div 10) @ [''0123456789'' ! (n mod 10)])"

text \<open>The last \<open>d\<close> decimal digits of \<open>n\<close>, with leading zeros.\<close>

fun fraction_digits :: "nat \<Rightarrow> nat \<Rightarrow> string" where
  "fraction_digits 0 n = []"
| "fraction_digits (Suc d) n = fraction_digits d (n div 10) @ [''0123456789'' ! (n mod 10)]"

text \<open>
  The format \<^verbatim>\<open>{x:.df}\<close>: \<open>x\<close> rounded to \<open>d\<close> decimals, written with a point and
  exactly \<open>d\<close> digits after it; a value that is not finite is written by name.
\<close>

definition format_f :: "nat \<Rightarrow> npfloat \<Rightarrow> string" where
  "format_f d x =
     (case x of
        NaN \<Rightarrow> ''nan''
      | PosInf \<Rightarrow> ''inf''
      | Fin r \<Rightarrow>
          (let n = nat (rint (\<bar>r\<bar> * 10 ^ d))
           in (if r < 0 then ''-'' else [])
              @ digits (n div 10 ^ d) @ ''.'' @ fraction_digits d n))"


subsection \<open>Column classes (lines 73 and 74)\<close>

definition select_dtypes :: "dtype list \<Rightarrow> dataframe \<Rightarrow> column list" where
  "select_dtypes include df = filter (\<lambda>c. col_dtype c \<in> set include) (df_columns df)"

definition numeric_columns :: "dataframe \<Rightarrow> string list" where
  "numeric_columns df = map col_name (select_dtypes [Float64, Int64] df)"

definition categorical_columns :: "dataframe \<Rightarrow> string list" where
  "categorical_columns df = map col_name (select_dtypes [Object, Category] df)"

subsection \<open>Charts and page elements\<close>

datatype plot =
    Histplot column bool
  | Heatmap "string list" "npfloat list list"
  | Scatterplot string string
  | Lineplot string
  | Barplot_groups string string "(string \<times> npfloat) list"
  | Barplot_rows string
  | Boxplot "(string \<times> cell) list"

text \<open>
  A figure is the plots drawn on its axes and the decorations set through \<^verbatim>\<open>plt\<close>.
  \<open>Histplot s kde\<close> draws the histogram of the series \<open>s\<close>, with a density curve when
  \<open>kde\<close> holds; \<open>Heatmap\<close> has the labels and the matrix; \<open>Scatterplot x y\<close>,
  \<open>Lineplot y\<close> and \<open>Barplot_rows y\<close> name columns of the table, the last two drawn
  against the row index; \<open>Barplot_groups x y t\<close> draws the two-column table \<open>t\<close>;
  \<open>Boxplot\<close> draws a table in long form.
\<close>

record figure =
  fig_plots :: "plot list"
  fig_title :: string
  fig_xlabel :: "string option"
  fig_ylabel :: "string option"
  fig_xticks_rotation :: "nat option"
  fig_legend :: bool

text \<open>
  What a render pass puts on the page. A widget is on the page with its label, its options,
  its key and the value it returned.
\<close>

datatype element =
    Subheader string
  | Selectbox string "string list" string string
  | Multiselect string "string list" string "string list"
  | Pyplot figure
  | Write string


subsection \<open>Tab 1: distribution (lines 79 to 95)\<close>

definition tab1 :: "dataframe \<Rightarrow> widgets \<Rightarrow> error + element list" where
  "tab1 df w =
     (if numeric_columns df \<noteq> [] then
        (case selectbox (numeric_columns df) 0 (hist_col w) of
           Inl e \<Rightarrow> Inl e
         | Inr selected_column \<Rightarrow>
             (case getitem (df_columns df) selected_column of
                Inl e \<Rightarrow> Inl e
              | Inr series \<Rightarrow>
                  Inr [Subheader ''Distribution Analysis'',
                       Selectbox ''Select column for histogram'' (numeric_columns df)
                         ''hist_col'' selected_column,
                       Pyplot \<lparr>fig_plots = [Histplot series True],
                               fig_title = ''Distribution of '' @ selected_column,
                               fig_xlabel = Some selected_column,
                               fig_ylabel = Some ''Frequency'',
                               fig_xticks_rotation = None,
                               fig_legend = False\<rparr>,
                       Write (''Mean: '' @ format_f 2 (series_mean (col_values series))),
                       Write (''Median: '' @ format_f 2 (series_median (col_values series))),
                       Write (''Std Dev: '' @ format_f 2 (series_std (col_values series)))]))
      else Inr [Subheader ''Distribution Analysis''])"

subsection \<open>Tab 2: correlation (lines 97 to 107)\<close>

text \<open>The rows in which both columns hold a number.\<close>

fun complete_pairs :: "cell list \<Rightarrow> cell list \<Rightarrow> (real \<times> real) list" where
  "complete_pairs (Num x # xs) (Num y # ys) = (x, y) # complete_pairs xs ys"
| "complete_pairs (x # xs) (y # ys) = complete_pairs xs ys"
| "complete_pairs xs ys = []"

text \<open>
  One entry of \<^verbatim>\<open>DataFrame.corr()\<close> (Pearson, at least one complete row): the sum of
  the products of the deviations over the root of the product of the sums of their squares,
  and nan when that root is zero.
\<close>

definition corr_entry :: "cell list \<Rightarrow> cell list \<Rightarrow> npfloat" where
  "corr_entry a b =
     (let ps = complete_pairs a b;
          nobs = length ps;
          meanx = sum_list (map fst ps) / real nobs;
          meany = sum_list (map snd ps) / real nobs;
          ssqdmx = sum_list (map (\<lambda>p. (fst p - meanx)\<^sup>2) ps);
          ssqdmy = sum_list (map (\<lambda>p. (snd p - meany)\<^sup>2) ps);
          covxy = sum_list (map (\<lambda>p. (fst p - meanx) * (snd p - meany)) ps);
          divisor = sqrt (ssqdmx * ssqdmy)
      in if nobs < 1 then NaN
         else if divisor \<noteq> 0 then Fin (covxy / divisor)
         else NaN)"

definition corr :: "column list \<Rightarrow> npfloat list list" where
  "corr cs = map (\<lambda>a. map (\<lambda>b. corr_entry (col_values a) (col_values b)) cs) cs"

definition tab2 :: "dataframe \<Rightarrow> error + element list" where
  "tab2 df =
     (if 1 < length (numeric_columns df) then
        (case getitems (df_columns df) (numeric_columns df) of
           Inl e \<Rightarrow> Inl e
         | Inr numeric \<Rightarrow>
             Inr [Subheader ''Correlation Analysis'',
                  Pyplot \<lparr>fig_plots = [Heatmap (map col_name numeric) (corr numeric)],
                          fig_title = ''Correlation Matrix'',
                          fig_xlabel = None,
                          fig_ylabel = None,
                          fig_xticks_rotation = None,
                          fig_legend = False\<rparr>])
      else Inr [Subheader ''Correlation Analysis'',
                Write ''Need at least two numeric columns for correlation analysis.''])"

subsection \<open>Tab 3: custom plot (lines 109 to 165)\<close>

definition empty_figure :: figure where
  "empty_figure =
     \<lparr>fig_plots = [], fig_title = [], fig_xlabel = None, fig_ylabel = None,
      fig_xticks_rotation = None, fig_legend = False\<rparr>"

text \<open>
  Scatter (lines 116 to 122). The Y selector starts at \<^verbatim>\<open>1 if len(numeric_columns) > 1 else 0\<close>.
\<close>

definition y_col_index :: "string list \<Rightarrow> nat" where
  "y_col_index numeric = (if 1 < length numeric then 1 else 0)"

definition scatter :: "dataframe \<Rightarrow> widgets \<Rightarrow> error + element list" where
  "scatter df w =
     (case selectbox (numeric_columns df) 0 (x_col w) of
        Inl e \<Rightarrow> Inl e
      | Inr x \<Rightarrow>
          (case selectbox (numeric_columns df) (y_col_index (numeric_columns df)) (y_col w) of
             Inl e \<Rightarrow> Inl e
           | Inr y \<Rightarrow>
               Inr [Selectbox ''Select X axis'' (numeric_columns df) ''x_col'' x,
                    Selectbox ''Select Y axis'' (numeric_columns df) ''y_col'' y,
                    Pyplot (empty_figure
                      \<lparr>fig_plots := [Scatterplot x y], fig_title := y @ '' vs '' @ x\<rparr>)]))"

text \<open>Line (lines 125 to 133); box (lines 157 to 165) reshapes the picked columns first.\<close>

definition line :: "dataframe \<Rightarrow> widgets \<Rightarrow> error + element list" where
  "line df w =
     (case py_index (numeric_columns df) 0 of
        Inl e \<Rightarrow> Inl e
      | Inr first \<Rightarrow>
          (case multiselect (numeric_columns df) [first] (line_cols w) of
             Inl e \<Rightarrow> Inl e
           | Inr selected_cols \<Rightarrow>
               Inr (Multiselect ''Select columns'' (numeric_columns df) ''line_cols'' selected_cols
                    # (if selected_cols \<noteq> [] then
                         [Pyplot (empty_figure
                            \<lparr>fig_plots := map Lineplot selected_cols,
                             fig_title := ''Line Plot'', fig_legend := True\<rparr>)]
                       else []))))"

text \<open>\<^verbatim>\<open>pd.melt\<close>: one row (column label, value) per cell, column after column.\<close>

definition melt :: "column list \<Rightarrow> (string \<times> cell) list" where
  "melt cs = concat (map (\<lambda>c. map (\<lambda>v. (col_name c, v)) (col_values c)) cs)"

definition box :: "dataframe \<Rightarrow> widgets \<Rightarrow> error + element list" where
  "box df w =
     (case py_index (numeric_columns df) 0 of
        Inl e \<Rightarrow> Inl e
      | Inr first \<Rightarrow>
          (case multiselect (numeric_columns df) [first] (box_cols w) of
             Inl e \<Rightarrow> Inl e
           | Inr selected_cols \<Rightarrow>
               (if selected_cols \<noteq> [] then
                  (case getitems (df_columns df) selected_cols of
                     Inl e \<Rightarrow> Inl e
                   | Inr picked \<Rightarrow>
                       Inr [Multiselect ''Select columns'' (numeric_columns df) ''box_cols''
                              selected_cols,
                            Pyplot (empty_figure
                              \<lparr>fig_plots := [Boxplot (melt picked)], fig_title := ''Box Plot'',
                               fig_xticks_rotation := Some 45\<rparr>)])
                else Inr [Multiselect ''Select columns'' (numeric_columns df) ''box_cols''
                            selected_cols])))"

text \<open>
  Bar (lines 136 to 154). \<^verbatim>\<open>df.groupby(x)[y].mean().reset_index()\<close> has one row per
  label of column \<open>x\<close>, the labels sorted and rows without a label left out, with the mean of
  the numbers that column \<open>y\<close> holds in the rows of that label. The labels are the texts
  found in the column, as in a column of dtype object, which is what a text column read
  from a file is.
\<close>

fun labels :: "cell list \<Rightarrow> string list" where
  "labels [] = []"
| "labels (Str s # vs) = s # labels vs"
| "labels (v # vs) = labels vs"

definition groupby_mean :: "cell list \<Rightarrow> cell list \<Rightarrow> (string \<times> npfloat) list" where
  "groupby_mean keys vals =
     map (\<lambda>k. (k, series_mean (map snd (filter (\<lambda>kv. fst kv = Str k) (zip keys vals)))))
       (sort (remdups (labels keys)))"

definition bar :: "dataframe \<Rightarrow> widgets \<Rightarrow> error + element list" where
  "bar df w =
     (if categorical_columns df \<noteq> [] then
        (case selectbox (categorical_columns df) 0 (bar_x w) of
           Inl e \<Rightarrow> Inl e
         | Inr x \<Rightarrow>
             (case selectbox (numeric_columns df) 0 (bar_y w) of
                Inl e \<Rightarrow> Inl e
              | Inr y \<Rightarrow>
                  (case getitem (df_columns df) x of
                     Inl e \<Rightarrow> Inl e
                   | Inr keys \<Rightarrow>
                       (case getitem (df_columns df) y of
                          Inl e \<Rightarrow> Inl e
                        | Inr vals \<Rightarrow>
                            Inr [Selectbox ''Select category (X axis)'' (categorical_columns df)
                                   ''bar_x'' x,
                                 Selectbox ''Select value (Y axis)'' (numeric_columns df)
                                   ''bar_y'' y,
                                 Pyplot (empty_figure
                                   \<lparr>fig_plots := [Barplot_groups x y
                                      (groupby_mean (col_values keys) (col_values vals))],
                                    fig_title := ''Average '' @ y @ '' by '' @ x,
                                    fig_xticks_rotation := Some 45\<rparr>)]))))
      else
        (case selectbox (numeric_columns df) 0 (bar_y_only w) of
           Inl e \<Rightarrow> Inl e
         | Inr y \<Rightarrow>
             Inr [Selectbox ''Select column for bar chart'' (numeric_columns df)
                    ''bar_y_only'' y,
                  Pyplot (empty_figure
                    \<lparr>fig_plots := [Barplot_rows y], fig_title := ''Bar Plot of '' @ y\<rparr>)]))"

definition plot_types :: "string list" where
  "plot_types = [''Scatter'', ''Line'', ''Bar'', ''Box'']"

definition tab3 :: "dataframe \<Rightarrow> widgets \<Rightarrow> error + element list" where
  "tab3 df w =
     (if numeric_columns df \<noteq> [] then
        (case selectbox plot_types 0 (plot_type w) of
           Inl e \<Rightarrow> Inl e
         | Inr chosen \<Rightarrow>
             (case (if chosen = ''Scatter'' \<and> 2 \<le> length (numeric_columns df) then scatter df w
                    else if chosen = ''Line'' \<and> numeric_columns df \<noteq> [] then line df w
                    else if chosen = ''Bar'' \<and> numeric_columns df \<noteq> [] then bar df w
                    else if chosen = ''Box'' \<and> numeric_columns df \<noteq> [] then box df w
                    else Inr []) of
                Inl e \<Rightarrow> Inl e
              | Inr es \<Rightarrow>
                  Inr (Subheader ''Custom Plot''
                       # Selectbox ''Select plot type'' plot_types ''plot_type'' chosen # es)))
      else Inr [Subheader ''Custom Plot''])"

subsection \<open>What is on the page\<close>



fun plot_columns :: "plot \<Rightarrow> string list" where
  "plot_columns (Histplot s kde) = [col_name s]"
| "plot_columns (Heatmap ls m) = ls"
| "plot_columns (Scatterplot x y) = [x, y]"
| "plot_columns (Lineplot y) = [y]"
| "plot_columns (Barplot_groups x y t) = [x, y]"
| "plot_columns (Barplot_rows y) = [y]"
| "plot_columns (Boxplot t) = map fst t"

fun element_columns :: "element \<Rightarrow> string list" where
  "element_columns (Selectbox l opts k v) = (if k = ''plot_type'' then [] else opts)"
| "element_columns (Multiselect l opts k v) = opts"
| "element_columns (Pyplot f) = concat (map plot_columns (fig_plots f))"
| "element_columns e = []"

subsection \<open>The download as CSV (lines 44 to 50)\<close>
















subsection \<open>Reading a CSV text\<close>












subsection \<open>Tables to run the definitions on\<close>


text \<open>A table with a text column, an integer column and a boolean column.\<close>

definition bar_df :: dataframe where
  "bar_df =
     \<lparr>df_columns =
        [\<lparr>col_name = ''cat'', col_dtype = Object,
          col_values = [Str ''x'', Str ''x'', Str ''y'']\<rparr>,
         \<lparr>col_name = ''val'', col_dtype = Int64, col_values = [Num 10, Num 20, Num 30]\<rparr>,
         \<lparr>col_name = ''flag'', col_dtype = Bool,
          col_values = [Bl True, Bl False, Bl True]\<rparr>],
      df_len = 3\<rparr>"


declare digits.simps [simp del]

section \<open>Auxiliary facts\<close>

subsection \<open>Widgets and column lookups\<close>


lemma selectbox_pick:
  "i < length opts \<Longrightarrow> j < length opts \<Longrightarrow> selectbox opts i (Some j) = Inr (opts ! j)"
  by (auto simp: selectbox_def)

lemma selectbox_returns:
  "opts \<noteq> [] \<Longrightarrow> i < length opts \<Longrightarrow> \<exists>v. selectbox opts i ch = Inr v \<and> v \<in> set opts"
  by (auto simp: selectbox_def split: option.splits)

lemma selectbox_in_options: "selectbox opts i ch = Inr v \<Longrightarrow> v \<in> set opts"
  by (auto simp: selectbox_def split: option.splits if_splits)

lemma plot_type_returns: "\<exists>v. selectbox plot_types 0 ch = Inr v \<and> v \<in> set plot_types"
  by (rule selectbox_returns) (simp_all add: plot_types_def)

lemma chosen_cases:
  assumes "selectbox plot_types 0 ch = Inr chosen"
  shows "chosen = ''Scatter'' \<or> chosen = ''Line'' \<or> chosen = ''Bar'' \<or> chosen = ''Box''"
  using selectbox_in_options [OF assms] by (auto simp: plot_types_def)




lemma multiselect_returns:
  "set d \<subseteq> set opts \<Longrightarrow> \<exists>sel. multiselect opts d ch = Inr sel \<and> set sel \<subseteq> set opts"
  by (auto simp: multiselect_def split: option.splits)


lemma y_col_index_second: "1 < length numeric \<Longrightarrow> y_col_index numeric = 1"
  by (simp add: y_col_index_def)

lemma getitem_present:
  "k \<in> col_name ` set cs \<Longrightarrow> \<exists>c. getitem cs k = Inr c \<and> col_name c = k \<and> c \<in> set cs"
  by (induction cs) auto

lemma getitems_present:
  "set ks \<subseteq> col_name ` set cs \<Longrightarrow>
   \<exists>ps. getitems cs ks = Inr ps \<and> map col_name ps = ks \<and> set ps \<subseteq> set cs"
proof (induction ks)
  case Nil
  then show ?case by simp
next
  case (Cons k ks)
  then obtain ps where ps: "getitems cs ks = Inr ps" "map col_name ps = ks" "set ps \<subseteq> set cs"
    by auto
  from Cons.prems obtain c where c: "getitem cs k = Inr c" "col_name c = k" "c \<in> set cs"
    using getitem_present [of k cs] by auto
  show ?case using ps c by simp
qed

lemma getitem_name: "getitem cs k = Inr c \<Longrightarrow> col_name c = k \<and> c \<in> set cs"
  by (induction cs) (auto split: if_splits)

lemma getitems_names: "getitems cs ks = Inr ps \<Longrightarrow> map col_name ps = ks \<and> set ps \<subseteq> set cs"
proof (induction ks arbitrary: ps)
  case Nil
  then show ?case by simp
next
  case (Cons k ks)
  then show ?case
    by (auto split: sum.splits dest: getitem_name)
qed

lemma numeric_columns_names: "set (numeric_columns df) \<subseteq> col_name ` set (df_columns df)"
  by (auto simp: numeric_columns_def select_dtypes_def)

lemma categorical_columns_names: "set (categorical_columns df) \<subseteq> col_name ` set (df_columns df)"
  by (auto simp: categorical_columns_def select_dtypes_def)

lemma numeric_by_dtype:
  assumes "distinct (map col_name (df_columns df))" and "c \<in> set (df_columns df)"
  shows "col_name c \<in> set (numeric_columns df) \<longleftrightarrow> col_dtype c \<in> {Float64, Int64}"
proof
  assume "col_name c \<in> set (numeric_columns df)"
  then obtain c' where c': "c' \<in> set (df_columns df)" "col_dtype c' \<in> {Float64, Int64}"
      "col_name c' = col_name c"
    by (auto simp: numeric_columns_def select_dtypes_def)
  from assms c'(1,3) have "c' = c"
    by (simp add: distinct_map inj_on_def)
  with c'(2) show "col_dtype c \<in> {Float64, Int64}" by simp
next
  assume "col_dtype c \<in> {Float64, Int64}"
  with assms(2) show "col_name c \<in> set (numeric_columns df)"
    by (auto simp: numeric_columns_def select_dtypes_def)
qed

lemma categorical_by_dtype:
  assumes "distinct (map col_name (df_columns df))" and "c \<in> set (df_columns df)"
  shows "col_name c \<in> set (categorical_columns df) \<longleftrightarrow> col_dtype c \<in> {Object, Category}"
proof
  assume "col_name c \<in> set (categorical_columns df)"
  then obtain c' where c': "c' \<in> set (df_columns df)" "col_dtype c' \<in> {Object, Category}"
      "col_name c' = col_name c"
    by (auto simp: categorical_columns_def select_dtypes_def)
  from assms c'(1,3) have "c' = c"
    by (simp add: distinct_map inj_on_def)
  with c'(2) show "col_dtype c \<in> {Object, Category}" by simp
next
  assume "col_dtype c \<in> {Object, Category}"
  with assms(2) show "col_name c \<in> set (categorical_columns df)"
    by (auto simp: categorical_columns_def select_dtypes_def)
qed

subsection \<open>The example tables\<close>


lemma numeric_columns_placeholder:
  "numeric_columns (placeholder randn) = [''A'', ''B'', ''C'', ''D'', ''E'']"
  by (simp add: numeric_columns_def select_dtypes_def placeholder_def)


lemma bar_df_classes:
  "numeric_columns bar_df = [''val'']" "categorical_columns bar_df = [''cat'']"
  by (simp_all add: numeric_columns_def categorical_columns_def select_dtypes_def bar_df_def)


subsection \<open>Numbers as text\<close>













subsection \<open>The missing-value table\<close>




subsection \<open>The pages of the three tabs\<close>

lemma tab1_numeric:
  assumes "numeric_columns df \<noteq> []"
  shows "\<exists>selected_column series.
     selectbox (numeric_columns df) 0 (hist_col w) = Inr selected_column \<and>
     selected_column \<in> set (numeric_columns df) \<and>
     series \<in> set (df_columns df) \<and> col_name series = selected_column \<and>
     tab1 df w =
       Inr [Subheader ''Distribution Analysis'',
            Selectbox ''Select column for histogram'' (numeric_columns df) ''hist_col''
              selected_column,
            Pyplot \<lparr>fig_plots = [Histplot series True],
                    fig_title = ''Distribution of '' @ selected_column,
                    fig_xlabel = Some selected_column,
                    fig_ylabel = Some ''Frequency'',
                    fig_xticks_rotation = None,
                    fig_legend = False\<rparr>,
            Write (''Mean: '' @ format_f 2 (series_mean (col_values series))),
            Write (''Median: '' @ format_f 2 (series_median (col_values series))),
            Write (''Std Dev: '' @ format_f 2 (series_std (col_values series)))]"
proof -
  from assms obtain selected_column where
    sel: "selectbox (numeric_columns df) 0 (hist_col w) = Inr selected_column"
      "selected_column \<in> set (numeric_columns df)"
    using selectbox_returns [of "numeric_columns df" 0 "hist_col w"] by auto
  then obtain series where
    ser: "getitem (df_columns df) selected_column = Inr series"
      "col_name series = selected_column" "series \<in> set (df_columns df)"
    using getitem_present [of selected_column "df_columns df"] numeric_columns_names [of df]
    by auto
  show ?thesis
    using assms sel ser by (simp add: tab1_def)
qed




lemma scatter_returns:
  assumes "2 \<le> length (numeric_columns df)"
  shows "\<exists>x y. selectbox (numeric_columns df) 0 (x_col w) = Inr x \<and>
      selectbox (numeric_columns df) 1 (y_col w) = Inr y \<and>
      x \<in> set (numeric_columns df) \<and> y \<in> set (numeric_columns df) \<and>
      scatter df w =
        Inr [Selectbox ''Select X axis'' (numeric_columns df) ''x_col'' x,
             Selectbox ''Select Y axis'' (numeric_columns df) ''y_col'' y,
             Pyplot (empty_figure
               \<lparr>fig_plots := [Scatterplot x y], fig_title := y @ '' vs '' @ x\<rparr>)]"
proof -
  from assms have ne: "numeric_columns df \<noteq> []" by auto
  from assms have idx: "y_col_index (numeric_columns df) = 1"
    by (simp add: y_col_index_def)
  obtain x where x: "selectbox (numeric_columns df) 0 (x_col w) = Inr x"
      "x \<in> set (numeric_columns df)"
    using selectbox_returns [of "numeric_columns df" 0 "x_col w"] ne by auto
  obtain y where y: "selectbox (numeric_columns df) 1 (y_col w) = Inr y"
      "y \<in> set (numeric_columns df)"
    using selectbox_returns [of "numeric_columns df" 1 "y_col w"] ne assms by auto
  show ?thesis
    using x y idx by (simp add: scatter_def)
qed

lemma line_returns:
  assumes "numeric_columns df \<noteq> []"
  shows "\<exists>selected_cols.
      multiselect (numeric_columns df) [numeric_columns df ! 0] (line_cols w) = Inr selected_cols \<and>
      set selected_cols \<subseteq> set (numeric_columns df) \<and>
      line df w =
        Inr (Multiselect ''Select columns'' (numeric_columns df) ''line_cols'' selected_cols
             # (if selected_cols \<noteq> [] then
                  [Pyplot (empty_figure
                     \<lparr>fig_plots := map Lineplot selected_cols,
                      fig_title := ''Line Plot'', fig_legend := True\<rparr>)]
                else []))"
proof -
  from assms have first: "py_index (numeric_columns df) 0 = Inr (numeric_columns df ! 0)"
    by (simp add: py_index_def)
  from assms have "set [numeric_columns df ! 0] \<subseteq> set (numeric_columns df)"
    by simp
  then obtain selected_cols where
    sel: "multiselect (numeric_columns df) [numeric_columns df ! 0] (line_cols w) = Inr selected_cols"
      "set selected_cols \<subseteq> set (numeric_columns df)"
    using multiselect_returns by blast
  show ?thesis
    using first sel by (simp add: line_def)
qed

lemma box_returns:
  assumes "numeric_columns df \<noteq> []"
  shows "\<exists>selected_cols picked.
      multiselect (numeric_columns df) [numeric_columns df ! 0] (box_cols w) = Inr selected_cols \<and>
      set selected_cols \<subseteq> set (numeric_columns df) \<and>
      getitems (df_columns df) selected_cols = Inr picked \<and>
      map col_name picked = selected_cols \<and>
      box df w =
        Inr (Multiselect ''Select columns'' (numeric_columns df) ''box_cols'' selected_cols
             # (if selected_cols \<noteq> [] then
                  [Pyplot (empty_figure
                     \<lparr>fig_plots := [Boxplot (melt picked)], fig_title := ''Box Plot'',
                      fig_xticks_rotation := Some 45\<rparr>)]
                else []))"
proof -
  from assms have first: "py_index (numeric_columns df) 0 = Inr (numeric_columns df ! 0)"
    by (simp add: py_index_def)
  from assms have "set [numeric_columns df ! 0] \<subseteq> set (numeric_columns df)"
    by simp
  then obtain selected_cols where
    sel: "multiselect (numeric_columns df) [numeric_columns df ! 0] (box_cols w) = Inr selected_cols"
      "set selected_cols \<subseteq> set (numeric_columns df)"
    using multiselect_returns by blast
  then have "set selected_cols \<subseteq> col_name ` set (df_columns df)"
    using numeric_columns_names by blast
  then obtain picked where
    p: "getitems (df_columns df) selected_cols = Inr picked" "map col_name picked = selected_cols"
    using getitems_present by blast
  show ?thesis
    using first sel p by (simp add: box_def)
qed

lemma bar_groups_returns:
  assumes "numeric_columns df \<noteq> []" and "categorical_columns df \<noteq> []"
  shows "\<exists>x y keys vals.
      selectbox (categorical_columns df) 0 (bar_x w) = Inr x \<and>
      selectbox (numeric_columns df) 0 (bar_y w) = Inr y \<and>
      x \<in> set (categorical_columns df) \<and> y \<in> set (numeric_columns df) \<and>
      getitem (df_columns df) x = Inr keys \<and> getitem (df_columns df) y = Inr vals \<and>
      bar df w =
        Inr [Selectbox ''Select category (X axis)'' (categorical_columns df) ''bar_x'' x,
             Selectbox ''Select value (Y axis)'' (numeric_columns df) ''bar_y'' y,
             Pyplot (empty_figure
               \<lparr>fig_plots := [Barplot_groups x y
                  (groupby_mean (col_values keys) (col_values vals))],
                fig_title := ''Average '' @ y @ '' by '' @ x,
                fig_xticks_rotation := Some 45\<rparr>)]"
proof -
  obtain x where x: "selectbox (categorical_columns df) 0 (bar_x w) = Inr x"
      "x \<in> set (categorical_columns df)"
    using selectbox_returns [of "categorical_columns df" 0 "bar_x w"] assms by auto
  obtain y where y: "selectbox (numeric_columns df) 0 (bar_y w) = Inr y"
      "y \<in> set (numeric_columns df)"
    using selectbox_returns [of "numeric_columns df" 0 "bar_y w"] assms by auto
  obtain keys where k: "getitem (df_columns df) x = Inr keys"
    using getitem_present [of x "df_columns df"] categorical_columns_names [of df] x by auto
  obtain vals where v: "getitem (df_columns df) y = Inr vals"
    using getitem_present [of y "df_columns df"] numeric_columns_names [of df] y by auto
  show ?thesis
    using x y k v assms by (simp add: bar_def)
qed

lemma bar_rows_returns:
  assumes "numeric_columns df \<noteq> []" and "categorical_columns df = []"
  shows "\<exists>y. selectbox (numeric_columns df) 0 (bar_y_only w) = Inr y \<and>
      y \<in> set (numeric_columns df) \<and>
      bar df w =
        Inr [Selectbox ''Select column for bar chart'' (numeric_columns df) ''bar_y_only'' y,
             Pyplot (empty_figure
               \<lparr>fig_plots := [Barplot_rows y], fig_title := ''Bar Plot of '' @ y\<rparr>)]"
proof -
  obtain y where y: "selectbox (numeric_columns df) 0 (bar_y_only w) = Inr y"
      "y \<in> set (numeric_columns df)"
    using selectbox_returns [of "numeric_columns df" 0 "bar_y_only w"] assms by auto
  show ?thesis
    using y assms by (simp add: bar_def)
qed

lemma tab3_unfold:
  assumes "numeric_columns df \<noteq> []" and "selectbox plot_types 0 (plot_type w) = Inr chosen"
    and "(if chosen = ''Scatter'' \<and> 2 \<le> length (numeric_columns df) then scatter df w
          else if chosen = ''Line'' then line df w
          else if chosen = ''Bar'' then bar df w
          else if chosen = ''Box'' then box df w
          else Inr []) = Inr es"
  shows "tab3 df w =
    Inr (Subheader ''Custom Plot''
         # Selectbox ''Select plot type'' plot_types ''plot_type'' chosen # es)"
  using assms by (auto simp: tab3_def split: if_splits)

lemma tab3_no_numeric: "numeric_columns df = [] \<Longrightarrow> tab3 df w = Inr [Subheader ''Custom Plot'']"
  by (simp add: tab3_def)

lemma tab3_scatter:
  assumes "2 \<le> length (numeric_columns df)"
    and "selectbox plot_types 0 (plot_type w) = Inr ''Scatter''"
  shows "\<exists>x y. selectbox (numeric_columns df) 0 (x_col w) = Inr x \<and>
      selectbox (numeric_columns df) 1 (y_col w) = Inr y \<and>
      x \<in> set (numeric_columns df) \<and> y \<in> set (numeric_columns df) \<and>
      tab3 df w =
        Inr [Subheader ''Custom Plot'',
             Selectbox ''Select plot type'' plot_types ''plot_type'' ''Scatter'',
             Selectbox ''Select X axis'' (numeric_columns df) ''x_col'' x,
             Selectbox ''Select Y axis'' (numeric_columns df) ''y_col'' y,
             Pyplot (empty_figure
               \<lparr>fig_plots := [Scatterplot x y], fig_title := y @ '' vs '' @ x\<rparr>)]"
proof -
  from assms have ne: "numeric_columns df \<noteq> []" by auto
  from scatter_returns [OF assms(1), of w] obtain x y where
    xy: "selectbox (numeric_columns df) 0 (x_col w) = Inr x"
      "selectbox (numeric_columns df) 1 (y_col w) = Inr y"
      "x \<in> set (numeric_columns df)" "y \<in> set (numeric_columns df)"
      "scatter df w =
        Inr [Selectbox ''Select X axis'' (numeric_columns df) ''x_col'' x,
             Selectbox ''Select Y axis'' (numeric_columns df) ''y_col'' y,
             Pyplot (empty_figure
               \<lparr>fig_plots := [Scatterplot x y], fig_title := y @ '' vs '' @ x\<rparr>)]"
    by blast
  show ?thesis
    using xy tab3_unfold [OF ne assms(2), of "[Selectbox ''Select X axis'' (numeric_columns df) ''x_col'' x,
             Selectbox ''Select Y axis'' (numeric_columns df) ''y_col'' y,
             Pyplot (empty_figure
               \<lparr>fig_plots := [Scatterplot x y], fig_title := y @ '' vs '' @ x\<rparr>)]"] assms(1)
    by simp
qed

lemma tab3_scatter_skipped:
  assumes "numeric_columns df \<noteq> []" and "length (numeric_columns df) < 2"
    and "selectbox plot_types 0 (plot_type w) = Inr ''Scatter''"
  shows "tab3 df w =
        Inr [Subheader ''Custom Plot'',
             Selectbox ''Select plot type'' plot_types ''plot_type'' ''Scatter'']"
  using tab3_unfold [OF assms(1) assms(3), of "[]"] assms(2) by simp

lemma tab3_line:
  assumes "numeric_columns df \<noteq> []"
    and "selectbox plot_types 0 (plot_type w) = Inr ''Line''"
  shows "\<exists>selected_cols.
      multiselect (numeric_columns df) [numeric_columns df ! 0] (line_cols w) = Inr selected_cols \<and>
      set selected_cols \<subseteq> set (numeric_columns df) \<and>
      tab3 df w =
        Inr (Subheader ''Custom Plot''
             # Selectbox ''Select plot type'' plot_types ''plot_type'' ''Line''
             # Multiselect ''Select columns'' (numeric_columns df) ''line_cols'' selected_cols
             # (if selected_cols \<noteq> [] then
                  [Pyplot (empty_figure
                     \<lparr>fig_plots := map Lineplot selected_cols,
                      fig_title := ''Line Plot'', fig_legend := True\<rparr>)]
                else []))"
proof -
  from line_returns [OF assms(1), of w] obtain selected_cols where
    l: "multiselect (numeric_columns df) [numeric_columns df ! 0] (line_cols w) = Inr selected_cols"
      "set selected_cols \<subseteq> set (numeric_columns df)"
      "line df w =
        Inr (Multiselect ''Select columns'' (numeric_columns df) ''line_cols'' selected_cols
             # (if selected_cols \<noteq> [] then
                  [Pyplot (empty_figure
                     \<lparr>fig_plots := map Lineplot selected_cols,
                      fig_title := ''Line Plot'', fig_legend := True\<rparr>)]
                else []))"
    by blast
  have "tab3 df w = Inr (Subheader ''Custom Plot''
             # Selectbox ''Select plot type'' plot_types ''plot_type'' ''Line''
             # Multiselect ''Select columns'' (numeric_columns df) ''line_cols'' selected_cols
             # (if selected_cols \<noteq> [] then
                  [Pyplot (empty_figure
                     \<lparr>fig_plots := map Lineplot selected_cols,
                      fig_title := ''Line Plot'', fig_legend := True\<rparr>)]
                else []))"
    by (rule tab3_unfold [OF assms]) (simp add: l(3))
  with l show ?thesis by blast
qed

lemma tab3_box:
  assumes "numeric_columns df \<noteq> []"
    and "selectbox plot_types 0 (plot_type w) = Inr ''Box''"
  shows "\<exists>selected_cols picked.
      multiselect (numeric_columns df) [numeric_columns df ! 0] (box_cols w) = Inr selected_cols \<and>
      set selected_cols \<subseteq> set (numeric_columns df) \<and>
      getitems (df_columns df) selected_cols = Inr picked \<and>
      map col_name picked = selected_cols \<and>
      tab3 df w =
        Inr (Subheader ''Custom Plot''
             # Selectbox ''Select plot type'' plot_types ''plot_type'' ''Box''
             # Multiselect ''Select columns'' (numeric_columns df) ''box_cols'' selected_cols
             # (if selected_cols \<noteq> [] then
                  [Pyplot (empty_figure
                     \<lparr>fig_plots := [Boxplot (melt picked)], fig_title := ''Box Plot'',
                      fig_xticks_rotation := Some 45\<rparr>)]
                else []))"
proof -
  from box_returns [OF assms(1), of w] obtain selected_cols picked where
    b: "multiselect (numeric_columns df) [numeric_columns df ! 0] (box_cols w) = Inr selected_cols"
      "set selected_cols \<subseteq> set (numeric_columns df)"
      "getitems (df_columns df) selected_cols = Inr picked"
      "map col_name picked = selected_cols"
      "box df w =
        Inr (Multiselect ''Select columns'' (numeric_columns df) ''box_cols'' selected_cols
             # (if selected_cols \<noteq> [] then
                  [Pyplot (empty_figure
                     \<lparr>fig_plots := [Boxplot (melt picked)], fig_title := ''Box Plot'',
                      fig_xticks_rotation := Some 45\<rparr>)]
                else []))"
    by blast
  have "tab3 df w = Inr (Subheader ''Custom Plot''
             # Selectbox ''Select plot type'' plot_types ''plot_type'' ''Box''
             # Multiselect ''Select columns'' (numeric_columns df) ''box_cols'' selected_cols
             # (if selected_cols \<noteq> [] then
                  [Pyplot (empty_figure
                     \<lparr>fig_plots := [Boxplot (melt picked)], fig_title := ''Box Plot'',
                      fig_xticks_rotation := Some 45\<rparr>)]
                else []))"
    by (rule tab3_unfold [OF assms]) (simp add: b(5))
  with b show ?thesis by blast
qed

lemma tab3_bar_groups:
  assumes "numeric_columns df \<noteq> []" and "categorical_columns df \<noteq> []"
    and "selectbox plot_types 0 (plot_type w) = Inr ''Bar''"
  shows "\<exists>x y keys vals.
      selectbox (categorical_columns df) 0 (bar_x w) = Inr x \<and>
      selectbox (numeric_columns df) 0 (bar_y w) = Inr y \<and>
      x \<in> set (categorical_columns df) \<and> y \<in> set (numeric_columns df) \<and>
      getitem (df_columns df) x = Inr keys \<and> getitem (df_columns df) y = Inr vals \<and>
      tab3 df w =
        Inr [Subheader ''Custom Plot'',
             Selectbox ''Select plot type'' plot_types ''plot_type'' ''Bar'',
             Selectbox ''Select category (X axis)'' (categorical_columns df) ''bar_x'' x,
             Selectbox ''Select value (Y axis)'' (numeric_columns df) ''bar_y'' y,
             Pyplot (empty_figure
               \<lparr>fig_plots := [Barplot_groups x y
                  (groupby_mean (col_values keys) (col_values vals))],
                fig_title := ''Average '' @ y @ '' by '' @ x,
                fig_xticks_rotation := Some 45\<rparr>)]"
proof -
  from bar_groups_returns [OF assms(1,2), of w] obtain x y keys vals where
    b: "selectbox (categorical_columns df) 0 (bar_x w) = Inr x"
      "selectbox (numeric_columns df) 0 (bar_y w) = Inr y"
      "x \<in> set (categorical_columns df)" "y \<in> set (numeric_columns df)"
      "getitem (df_columns df) x = Inr keys" "getitem (df_columns df) y = Inr vals"
      "bar df w =
        Inr [Selectbox ''Select category (X axis)'' (categorical_columns df) ''bar_x'' x,
             Selectbox ''Select value (Y axis)'' (numeric_columns df) ''bar_y'' y,
             Pyplot (empty_figure
               \<lparr>fig_plots := [Barplot_groups x y
                  (groupby_mean (col_values keys) (col_values vals))],
                fig_title := ''Average '' @ y @ '' by '' @ x,
                fig_xticks_rotation := Some 45\<rparr>)]"
    by blast
  have "tab3 df w =
        Inr [Subheader ''Custom Plot'',
             Selectbox ''Select plot type'' plot_types ''plot_type'' ''Bar'',
             Selectbox ''Select category (X axis)'' (categorical_columns df) ''bar_x'' x,
             Selectbox ''Select value (Y axis)'' (numeric_columns df) ''bar_y'' y,
             Pyplot (empty_figure
               \<lparr>fig_plots := [Barplot_groups x y
                  (groupby_mean (col_values keys) (col_values vals))],
                fig_title := ''Average '' @ y @ '' by '' @ x,
                fig_xticks_rotation := Some 45\<rparr>)]"
    by (rule tab3_unfold [OF assms(1,3)]) (simp add: b(7))
  with b show ?thesis by blast
qed

lemma tab3_bar_rows:
  assumes "numeric_columns df \<noteq> []" and "categorical_columns df = []"
    and "selectbox plot_types 0 (plot_type w) = Inr ''Bar''"
  shows "\<exists>y. selectbox (numeric_columns df) 0 (bar_y_only w) = Inr y \<and>
      y \<in> set (numeric_columns df) \<and>
      tab3 df w =
        Inr [Subheader ''Custom Plot'',
             Selectbox ''Select plot type'' plot_types ''plot_type'' ''Bar'',
             Selectbox ''Select column for bar chart'' (numeric_columns df) ''bar_y_only'' y,
             Pyplot (empty_figure
               \<lparr>fig_plots := [Barplot_rows y], fig_title := ''Bar Plot of '' @ y\<rparr>)]"
proof -
  from bar_rows_returns [OF assms(1,2), of w] obtain y where
    b: "selectbox (numeric_columns df) 0 (bar_y_only w) = Inr y"
      "y \<in> set (numeric_columns df)"
      "bar df w =
        Inr [Selectbox ''Select column for bar chart'' (numeric_columns df) ''bar_y_only'' y,
             Pyplot (empty_figure
               \<lparr>fig_plots := [Barplot_rows y], fig_title := ''Bar Plot of '' @ y\<rparr>)]"
    by blast
  have "tab3 df w =
        Inr [Subheader ''Custom Plot'',
             Selectbox ''Select plot type'' plot_types ''plot_type'' ''Bar'',
             Selectbox ''Select column for bar chart'' (numeric_columns df) ''bar_y_only'' y,
             Pyplot (empty_figure
               \<lparr>fig_plots := [Barplot_rows y], fig_title := ''Bar Plot of '' @ y\<rparr>)]"
    by (rule tab3_unfold [OF assms(1,3)]) (simp add: b(3))
  with b show ?thesis by blast
qed

lemma tab3_returns: "\<exists>es. tab3 df w = Inr es"
proof (cases "numeric_columns df = []")
  case True
  then show ?thesis by (simp add: tab3_no_numeric)
next
  case False
  obtain chosen where ch: "selectbox plot_types 0 (plot_type w) = Inr chosen"
    using plot_type_returns by blast
  from chosen_cases [OF ch] consider
    "chosen = ''Scatter''" | "chosen = ''Line''" | "chosen = ''Bar''" | "chosen = ''Box''"
    by blast
  then show ?thesis
  proof cases
    case 1
    show ?thesis
    proof (cases "2 \<le> length (numeric_columns df)")
      case True
      from tab3_scatter [OF True] ch 1 show ?thesis by blast
    next
      case small: False
      then have "length (numeric_columns df) < 2" by simp
      from tab3_scatter_skipped [OF False this] ch 1 show ?thesis by blast
    qed
  next
    case 2
    with tab3_line [OF False, of w] ch show ?thesis by blast
  next
    case 3
    show ?thesis
    proof (cases "categorical_columns df = []")
      case True
      from tab3_bar_rows [OF False True, of w] ch 3 show ?thesis by blast
    next
      case nonempty: False
      from tab3_bar_groups [OF False nonempty, of w] ch 3 show ?thesis by blast
    qed
  next
    case 4
    with tab3_box [OF False, of w] ch show ?thesis by blast
  qed
qed


lemma melt_labels: "set (map fst (melt cs)) \<subseteq> set (map col_name cs)"
  by (auto simp: melt_def)

lemma tab1_columns:
  assumes "tab1 df w = Inr es" and "e \<in> set es"
  shows "set (element_columns e) \<subseteq> set (numeric_columns df)"
proof (cases "numeric_columns df = []")
  case True
  with assms show ?thesis by (auto simp: tab1_def)
next
  case False
  from tab1_numeric [OF False, of w] assms show ?thesis
    by auto
qed

lemma tab2_columns:
  assumes "tab2 df = Inr es" and "e \<in> set es"
  shows "set (element_columns e) \<subseteq> set (numeric_columns df)"
proof -
  obtain picked where p: "getitems (df_columns df) (numeric_columns df) = Inr picked"
    using getitems_present [OF numeric_columns_names] by blast
  from getitems_names [OF p] have "map col_name picked = numeric_columns df" by simp
  with assms p show ?thesis
    by (auto simp: tab2_def split: if_splits)
qed

lemma tab3_columns:
  assumes out: "tab3 df w = Inr es" and e: "e \<in> set es"
  shows "set (element_columns e) \<subseteq> set (numeric_columns df) \<union> set (categorical_columns df)"
proof (cases "numeric_columns df = []")
  case True
  with assms show ?thesis by (auto simp: tab3_no_numeric)
next
  case False
  obtain chosen where ch: "selectbox plot_types 0 (plot_type w) = Inr chosen"
    using plot_type_returns by blast
  from chosen_cases [OF ch] consider
    "chosen = ''Scatter''" | "chosen = ''Line''" | "chosen = ''Bar''" | "chosen = ''Box''"
    by blast
  then show ?thesis
  proof cases
    case 1
    show ?thesis
    proof (cases "2 \<le> length (numeric_columns df)")
      case True
      from tab3_scatter [OF True, of w] ch 1 out e show ?thesis
        by (auto simp: empty_figure_def)
    next
      case small: False
      then have "length (numeric_columns df) < 2" by simp
      from tab3_scatter_skipped [OF False this] ch 1 out e show ?thesis by auto
    qed
  next
    case 2
    with tab3_line [OF False, of w] ch out e show ?thesis
      by (auto simp: empty_figure_def split: if_splits) blast
  next
    case 3
    show ?thesis
    proof (cases "categorical_columns df = []")
      case True
      from tab3_bar_rows [OF False True, of w] ch 3 out e show ?thesis
        by (auto simp: empty_figure_def)
    next
      case nonempty: False
      from tab3_bar_groups [OF False nonempty, of w] ch 3 out e show ?thesis
        by (auto simp: empty_figure_def)
    qed
  next
    case 4
    with tab3_box [OF False, of w] ch obtain selected_cols picked where
      b: "set selected_cols \<subseteq> set (numeric_columns df)"
        "map col_name picked = selected_cols"
        "tab3 df w =
          Inr (Subheader ''Custom Plot''
             # Selectbox ''Select plot type'' plot_types ''plot_type'' ''Box''
             # Multiselect ''Select columns'' (numeric_columns df) ''box_cols'' selected_cols
             # (if selected_cols \<noteq> [] then
                  [Pyplot (empty_figure
                     \<lparr>fig_plots := [Boxplot (melt picked)], fig_title := ''Box Plot'',
                      fig_xticks_rotation := Some 45\<rparr>)]
                else []))"
      by blast
    from melt_labels [of picked] b(1,2)
    have "set (map fst (melt picked)) \<subseteq> set (numeric_columns df)" by auto
    with b(3) out e show ?thesis
      by (auto simp: empty_figure_def split: if_splits)
  qed
qed

subsection \<open>Correlation entries\<close>












subsection \<open>Grouping\<close>






subsection \<open>The cache of the loader\<close>

lemma cache_data_hit: "cache_data body (Some stored) = (Inr stored, Some stored)"
  by (simp add: cache_data_def)

lemma load_data_first:
  "load_data read_csv None randn None = (Inr (placeholder randn), Some (placeholder randn))"
  by (simp add: load_data_def load_data_body_def cache_data_def)

lemma load_data_rerun:
  assumes "load_data read_csv uploaded_file randn cache = (Inr data, cache')"
  shows "load_data read_csv uploaded_file' randn' cache' = (Inr data, cache')"
  using assms
  by (auto simp: load_data_def cache_data_def split: option.splits sum.splits)

subsection \<open>Writing a CSV text and reading it back\<close>

































section \<open>Properties\<close>

subsection \<open>The missing-value table (C1)\<close>



subsection \<open>The CSV download (C2)\<close>




subsection \<open>The cached loader (C3)\<close>

text \<open>
  C3. A second pass returns the table of the first, whatever is uploaded by then: the cache
  of \<^verbatim>\<open>load_data\<close> has no key for the upload. Below, the first pass runs without an
  upload and stores the placeholder; in the second pass a file is uploaded, the body would
  read it, and the loader still returns the stored placeholder.
\<close>

theorem load_data_stale_after_upload:
  "load_data Inr None (\<lambda>i j. 0) None =
     (Inr (placeholder (\<lambda>i j. 0)), Some (placeholder (\<lambda>i j. 0))) \<and>
   load_data Inr (Some bar_df) (\<lambda>i j. 1) (Some (placeholder (\<lambda>i j. 0))) =
     (Inr (placeholder (\<lambda>i j. 0)), Some (placeholder (\<lambda>i j. 0))) \<and>
   load_data_body Inr (Some bar_df) (\<lambda>i j. 1) = Inr bar_df \<and>
   placeholder (\<lambda>i j. 0) \<noteq> bar_df"
proof -
  have "df_len (placeholder (\<lambda>i j. 0)) \<noteq> df_len bar_df"
    by (simp add: placeholder_def bar_df_def)
  then have "placeholder (\<lambda>i j. 0) \<noteq> bar_df"
    by auto
  moreover have "load_data Inr (Some bar_df) (\<lambda>i j. 1) (Some (placeholder (\<lambda>i j. 0))) =
     (Inr (placeholder (\<lambda>i j. 0)), Some (placeholder (\<lambda>i j. 0)))"
    by (simp add: load_data_def cache_data_hit)
  moreover have "load_data_body Inr (Some bar_df) (\<lambda>i j. 1) = Inr bar_df"
    by (simp add: load_data_body_def)
  ultimately show ?thesis
    using load_data_first [of Inr "\<lambda>i j. 0"] by simp
qed

subsection \<open>The correlation view (C4)\<close>




subsection \<open>The bar chart (C5)\<close>



subsection \<open>Plots whose precondition fails (C6)\<close>



subsection \<open>The title of the scatter plot (C7)\<close>

text \<open>
  C7. With at least two numeric columns and the plot type Scatter, picking the numeric
  column \<open>x\<close> for the X axis and \<open>y\<close> for the Y axis gives one chart, the scatter plot of
  \<open>x\<close> and \<open>y\<close>, whose title is \<open>y\<close>, then \<open>vs\<close>, then \<open>x\<close>. In the table with the
  columns \<open>A\<close> to \<open>E\<close>, X = \<open>A\<close> and Y = \<open>B\<close> give the title \<open>B vs A\<close>.
\<close>

theorem scatter_title:
  assumes "2 \<le> length (numeric_columns df)"
    and "selectbox plot_types 0 (plot_type w) = Inr ''Scatter''"
    and "x_col w = Some i" and "i < length (numeric_columns df)"
    and "y_col w = Some j" and "j < length (numeric_columns df)"
  shows "tab3 df w =
    Inr [Subheader ''Custom Plot'',
         Selectbox ''Select plot type'' plot_types ''plot_type'' ''Scatter'',
         Selectbox ''Select X axis'' (numeric_columns df) ''x_col'' (numeric_columns df ! i),
         Selectbox ''Select Y axis'' (numeric_columns df) ''y_col'' (numeric_columns df ! j),
         Pyplot (empty_figure
           \<lparr>fig_plots := [Scatterplot (numeric_columns df ! i) (numeric_columns df ! j)],
            fig_title := (numeric_columns df ! j) @ '' vs '' @ (numeric_columns df ! i)\<rparr>)]"
proof -
  from tab3_scatter [OF assms(1,2)] obtain x y where
    xy: "selectbox (numeric_columns df) 0 (x_col w) = Inr x"
      "selectbox (numeric_columns df) 1 (y_col w) = Inr y"
    and out: "tab3 df w =
        Inr [Subheader ''Custom Plot'',
             Selectbox ''Select plot type'' plot_types ''plot_type'' ''Scatter'',
             Selectbox ''Select X axis'' (numeric_columns df) ''x_col'' x,
             Selectbox ''Select Y axis'' (numeric_columns df) ''y_col'' y,
             Pyplot (empty_figure
               \<lparr>fig_plots := [Scatterplot x y], fig_title := y @ '' vs '' @ x\<rparr>)]"
    by blast
  from assms(1) have d0: "0 < length (numeric_columns df)"
    and d1: "1 < length (numeric_columns df)"
    by linarith+
  from xy(1) selectbox_pick [OF d0 assms(4)] assms(3) have x: "x = numeric_columns df ! i"
    by simp
  from xy(2) selectbox_pick [OF d1 assms(6)] assms(5) have y: "y = numeric_columns df ! j"
    by simp
  show ?thesis
    using out by (simp add: x y)
qed

theorem scatter_title_witness:
  "2 \<le> length (numeric_columns (placeholder (\<lambda>i j. 0))) \<and>
   selectbox plot_types 0 (plot_type (untouched\<lparr>x_col := Some 0, y_col := Some 1\<rparr>)) = Inr ''Scatter'' \<and>
   tab3 (placeholder (\<lambda>i j. 0)) (untouched\<lparr>x_col := Some 0, y_col := Some 1\<rparr>) =
    Inr [Subheader ''Custom Plot'',
         Selectbox ''Select plot type'' [''Scatter'', ''Line'', ''Bar'', ''Box''] ''plot_type'' ''Scatter'',
         Selectbox ''Select X axis'' [''A'', ''B'', ''C'', ''D'', ''E''] ''x_col'' ''A'',
         Selectbox ''Select Y axis'' [''A'', ''B'', ''C'', ''D'', ''E''] ''y_col'' ''B'',
         Pyplot \<lparr>fig_plots = [Scatterplot ''A'' ''B''], fig_title = ''B vs A'',
                 fig_xlabel = None, fig_ylabel = None, fig_xticks_rotation = None,
                 fig_legend = False\<rparr>]"
proof -
  let ?df = "placeholder (\<lambda>i j. 0)"
  let ?w = "untouched\<lparr>x_col := Some 0, y_col := Some 1\<rparr>"
  have n: "numeric_columns ?df = [''A'', ''B'', ''C'', ''D'', ''E'']"
    by (rule numeric_columns_placeholder)
  have two: "2 \<le> length (numeric_columns ?df)"
    by (simp add: n)
  have chosen: "selectbox plot_types 0 (plot_type ?w) = Inr ''Scatter''"
    by (simp add: selectbox_def plot_types_def untouched_def)
  have x: "x_col ?w = Some 0" and y: "y_col ?w = Some 1"
    by simp_all
  have i: "0 < length (numeric_columns ?df)" and j: "1 < length (numeric_columns ?df)"
    by (simp_all add: n)
  from scatter_title [OF two chosen x i y j] show ?thesis
    using two chosen by (simp add: n plot_types_def empty_figure_def)
qed

subsection \<open>When the scatter plot is shown (C8)\<close>



subsection \<open>The distribution view (C9)\<close>



subsection \<open>Column classes (C10)\<close>

text \<open>
  C10. In a dataset (its column labels are distinct) a column is numeric exactly when its
  dtype is float64 or int64, and categorical exactly when its dtype is object or category.
  A column of any other dtype is in neither list; no selector of any tab offers it and no
  chart, the correlation heatmap included, is drawn from it.
\<close>

theorem column_classes:
  assumes "distinct (map col_name (df_columns df))" and "c \<in> set (df_columns df)"
  shows "(col_name c \<in> set (numeric_columns df) \<longleftrightarrow> col_dtype c \<in> {Float64, Int64}) \<and>
     (col_name c \<in> set (categorical_columns df) \<longleftrightarrow> col_dtype c \<in> {Object, Category}) \<and>
     (col_dtype c \<notin> {Float64, Int64, Object, Category} \<longrightarrow>
        col_name c \<notin> set (numeric_columns df) \<and>
        col_name c \<notin> set (categorical_columns df) \<and>
        (\<forall>w es e. (tab1 df w = Inr es \<or> tab2 df = Inr es \<or> tab3 df w = Inr es) \<and> e \<in> set es
           \<longrightarrow> col_name c \<notin> set (element_columns e)))"
proof (intro conjI impI allI)
  show "col_name c \<in> set (numeric_columns df) \<longleftrightarrow> col_dtype c \<in> {Float64, Int64}"
    by (rule numeric_by_dtype [OF assms])
  show "col_name c \<in> set (categorical_columns df) \<longleftrightarrow> col_dtype c \<in> {Object, Category}"
    by (rule categorical_by_dtype [OF assms])
next
  assume "col_dtype c \<notin> {Float64, Int64, Object, Category}"
  then show "col_name c \<notin> set (numeric_columns df)"
    using numeric_by_dtype [OF assms] by simp
next
  assume "col_dtype c \<notin> {Float64, Int64, Object, Category}"
  then show "col_name c \<notin> set (categorical_columns df)"
    using categorical_by_dtype [OF assms] by simp
next
  fix w es e
  assume other: "col_dtype c \<notin> {Float64, Int64, Object, Category}"
    and shown: "(tab1 df w = Inr es \<or> tab2 df = Inr es \<or> tab3 df w = Inr es) \<and> e \<in> set es"
  from other have no: "col_name c \<notin> set (numeric_columns df) \<union> set (categorical_columns df)"
    using numeric_by_dtype [OF assms] categorical_by_dtype [OF assms] by simp
  from shown have "set (element_columns e) \<subseteq> set (numeric_columns df) \<union> set (categorical_columns df)"
    using tab1_columns [of df w es e] tab2_columns [of df es e] tab3_columns [of df w es e]
    by blast
  with no show "col_name c \<notin> set (element_columns e)"
    by blast
qed

theorem column_classes_witness:
  "distinct (map col_name (df_columns bar_df)) \<and>
   \<lparr>col_name = ''flag'', col_dtype = Bool, col_values = [Bl True, Bl False, Bl True]\<rparr>
     \<in> set (df_columns bar_df) \<and>
   Bool \<notin> {Float64, Int64, Object, Category} \<and>
   ''flag'' \<notin> set (numeric_columns bar_df) \<and>
   ''flag'' \<notin> set (categorical_columns bar_df) \<and>
   (\<exists>es. tab3 bar_df (untouched\<lparr>plot_type := Some 2\<rparr>) = Inr es \<and> es \<noteq> [] \<and>
      ''flag'' \<notin> set (concat (map element_columns es)))"
proof -
  let ?c = "\<lparr>col_name = ''flag'', col_dtype = Bool, col_values = [Bl True, Bl False, Bl True]\<rparr>"
  let ?w = "untouched\<lparr>plot_type := Some 2\<rparr>"
  have d: "distinct (map col_name (df_columns bar_df))"
    by (simp add: bar_df_def)
  have c: "?c \<in> set (df_columns bar_df)"
    by (simp add: bar_df_def)
  have b: "col_dtype ?c \<notin> {Float64, Int64, Object, Category}"
    by simp
  obtain es where es: "tab3 bar_df ?w = Inr es"
    using tab3_returns by blast
  then have ne: "es \<noteq> []"
    by (auto simp: tab3_def bar_df_classes split: sum.splits)
  from column_classes [OF d c] b es
  have no: "col_name ?c \<notin> set (numeric_columns bar_df)"
      "col_name ?c \<notin> set (categorical_columns bar_df)"
      "\<And>e. e \<in> set es \<Longrightarrow> col_name ?c \<notin> set (element_columns e)"
    by blast+
  from no(3) have "''flag'' \<notin> set (concat (map element_columns es))"
    by auto
  with d c no(1,2) es ne show ?thesis
    by auto
qed
end
